theory Spec2Isabelle
  imports Main
begin

section \<open>Data model of \<open>src/routes/account.js\<close> (Stripe routes)\<close>

text \<open>
  The three Stripe routes of the account router are embedded as functions from the
  request data, the provider's answers and the PNID collection to an outcome: the response
  sent (or the error the handler's promise rejects with), the collection afterwards, the
  external calls in the order the handler makes them, and the lines given to the logger.

  A document field that JavaScript can read as \<open>undefined\<close> or \<open>null\<close> is a
  \<open>nullable\<close>; \<open>access_level\<close> and \<open>pid\<close> are numbers of the schema. The PNID
  collection is a map from pid to document and does not fail; the Stripe client can
  throw at every call, so each of its methods returns an error or a value.
\<close>

datatype 'a nullable = Undefined | Null | Val 'a

datatype js_error = Error (message: string)

record pnid =
  pid :: nat
  access_level :: int
  customer_id :: "string nullable"
  subscription_id :: "string nullable"
  price_id :: "string nullable"
  tier_level :: "int nullable"
  tier_name :: "string nullable"
  latest_webhook_timestamp :: "int nullable"

record account =
  account_pid :: nat
  account_email_address :: string

record config =
  http_base_url :: string
  stripe_webhook_secret :: string

subsection \<open>The PNID collection\<close>

text \<open>
  One assignment of a \<open>$set\<close> document: the path \<open>connections.stripe.customer_id\<close> is
  \<open>Set_customer_id\<close>, and so on; \<open>access_level\<close> is a top-level path.
\<close>

datatype field_set =
    Set_customer_id "string nullable"
  | Set_latest_webhook_timestamp "int nullable"
  | Set_subscription_id "string nullable"
  | Set_price_id "string nullable"
  | Set_tier_level "int nullable"
  | Set_tier_name "string nullable"
  | Set_access_level int

fun apply_field :: "field_set \<Rightarrow> pnid \<Rightarrow> pnid" where
  "apply_field (Set_customer_id v) d = d\<lparr>customer_id := v\<rparr>"
| "apply_field (Set_latest_webhook_timestamp v) d = d\<lparr>latest_webhook_timestamp := v\<rparr>"
| "apply_field (Set_subscription_id v) d = d\<lparr>subscription_id := v\<rparr>"
| "apply_field (Set_price_id v) d = d\<lparr>price_id := v\<rparr>"
| "apply_field (Set_tier_level v) d = d\<lparr>tier_level := v\<rparr>"
| "apply_field (Set_tier_name v) d = d\<lparr>tier_name := v\<rparr>"
| "apply_field (Set_access_level v) d = d\<lparr>access_level := v\<rparr>"

definition apply_set :: "field_set list \<Rightarrow> pnid \<Rightarrow> pnid" where
  "apply_set upd d = fold apply_field upd d"

text \<open>
  \<open>database.PNID\<close>: the documents by pid, and the document the schema gives a pid that an
  upsert inserts (the schema is not part of the route file, so it is a field here).
\<close>

record database =
  docs :: "nat \<rightharpoonup> pnid"
  schema_defaults :: pnid

text \<open>
  \<open>PNID.updateOne({ pid }, { $set: upd }, { upsert })\<close>: the document of that pid gets the
  assignments; without one, an upsert inserts the schema's document for the pid with the
  assignments, and a plain update changes nothing.
\<close>

definition updateOne :: "nat \<Rightarrow> field_set list \<Rightarrow> bool \<Rightarrow> database \<Rightarrow> database" where
  "updateOne p upd upsert db =
     (case docs db p of
        Some d \<Rightarrow> db\<lparr>docs := (docs db)(p \<mapsto> apply_set upd d)\<rparr>
      | None \<Rightarrow>
          if upsert
          then db\<lparr>docs := (docs db)(p \<mapsto> apply_set upd ((schema_defaults db)\<lparr>pid := p\<rparr>))\<rparr>
          else db)"

definition findOne :: "nat \<Rightarrow> database \<Rightarrow> pnid option" where
  "findOne p db = docs db p"

subsection \<open>The Stripe client\<close>

record customer =
  cus_id :: string

record line_item =
  price :: string
  quantity :: nat

record session_params =
  line_items :: "line_item list"
  session_customer :: string
  mode :: string
  success_url :: string
  cancel_url :: string

record session =
  session_url :: string

text \<open>
  What the provider answers to each call. \<open>customers_create\<close> takes the email and the
  \<open>pnid_pid\<close> of the metadata; \<open>webhooks_constructEvent\<close> takes the raw body, the
  \<open>stripe-signature\<close> header (which may be absent) and the secret.
\<close>

record 'e stripe_api =
  customers_search :: "string \<Rightarrow> js_error + customer list"
  customers_create :: "string \<Rightarrow> nat \<Rightarrow> js_error + customer"
  checkout_sessions_create :: "session_params \<Rightarrow> js_error + session"
  subscriptions_del :: "string \<Rightarrow> js_error + unit"
  webhooks_constructEvent :: "string \<Rightarrow> string option \<Rightarrow> string \<Rightarrow> js_error + 'e"

subsection \<open>Responses, calls and outcomes\<close>

text \<open>A cookie is its name, its value and its domain.\<close>

type_synonym cookie = "string \<times> string \<times> string"

datatype reply =
    Redirect nat string
  | Send nat string
  | Json nat "(string \<times> bool) list"

record response =
  cookies :: "cookie list"
  reply :: reply

datatype 'e call =
    Customers_search string
  | Customers_create string nat
  | Checkout_sessions_create session_params
  | Subscriptions_del string
  | Webhooks_constructEvent string "string option" string
  | HandleStripeEvent 'e
  | PNID_updateOne nat "field_set list" bool
  | PNID_findOne nat

text \<open>
  \<open>result\<close> is \<open>Inr\<close> the response the handler sent, or \<open>Inl\<close> the error its promise
  rejected with (thrown outside every \<open>try\<close>: the handler itself sends nothing).
\<close>

record 'e outcome =
  result :: "js_error + response"
  store :: database
  calls :: "'e call list"
  logged :: "string list"

subsection \<open>JavaScript conversions the handlers use\<close>

text \<open>Truthiness of a string field: \<open>undefined\<close>, \<open>null\<close> and the empty string are falsy.\<close>

fun truthy :: "string nullable \<Rightarrow> bool" where
  "truthy Undefined = False"
| "truthy Null = False"
| "truthy (Val s) = (s \<noteq> [])"

text \<open>A string field inside a template literal.\<close>

fun template_str :: "string nullable \<Rightarrow> string" where
  "template_str Undefined = ''undefined''"
| "template_str Null = ''null''"
| "template_str (Val s) = s"

text \<open>A pid inside a template literal: its decimal digits.\<close>

fun digit_char :: "nat \<Rightarrow> char" where
  "digit_char n = char_of (48 + n)"

fun template_nat :: "nat \<Rightarrow> string" where
  "template_nat n = (if n < 10 then [digit_char n] else template_nat (n div 10) @ [digit_char (n mod 10)])"

definition cookie_domain :: string where
  "cookie_domain = ''.pretendo.network''"

text \<open>\<open>response.redirect(url)\<close> answers 302; \<open>response.redirect(303, url)\<close> answers 303.\<close>

definition redirect :: "cookie list \<Rightarrow> string \<Rightarrow> response" where
  "redirect cs url = \<lparr>cookies = cs, reply = Redirect 302 url\<rparr>"

section \<open>\<open>POST /stripe/unsubscribe\<close>\<close>

definition unsubscribe_updateData :: "pnid \<Rightarrow> field_set list" where
  "unsubscribe_updateData p =
     [Set_subscription_id Null, Set_price_id Null, Set_tier_level (Val 0), Set_tier_name Null]
     @ (if access_level p < 2 then [Set_access_level 0] else [])"

definition unsubscribe_log_line :: "pnid \<Rightarrow> string \<Rightarrow> js_error \<Rightarrow> string" where
  "unsubscribe_log_line p subscriptionId err =
     ''Error canceling old user subscription | '' @ template_str (customer_id p) @ '', ''
     @ template_nat (pid p) @ '', '' @ subscriptionId @ '' | - '' @ message err"

text \<open>
  The handler reads \<open>request.pnid\<close> (the document the login middleware loaded) and writes
  the collection.
\<close>

definition unsubscribe :: "'e stripe_api \<Rightarrow> pnid \<Rightarrow> database \<Rightarrow> 'e outcome" where
  "unsubscribe stripe p db =
     (let tierName = tier_name p;
          done = redirect [(''success'', ''Unsubscribed from '' @ template_str tierName, cookie_domain)]
                   ''/account''
      in
      if truthy (subscription_id p) then
        (case subscription_id p of
           Val subscriptionId \<Rightarrow>
             (case subscriptions_del stripe subscriptionId of
                Inr _ \<Rightarrow>
                  (let updateData = unsubscribe_updateData p in
                   \<lparr>result = Inr done,
                    store = updateOne (pid p) updateData False db,
                    calls = [Subscriptions_del subscriptionId, PNID_updateOne (pid p) updateData False],
                    logged = []\<rparr>)
              | Inl err \<Rightarrow>
                  \<lparr>result = Inr (redirect
                      [(''error_message'',
                        ''Error canceling subscription! Contact support if issue persists'',
                        cookie_domain)] ''/account''),
                   store = db,
                   calls = [Subscriptions_del subscriptionId],
                   logged = [unsubscribe_log_line p subscriptionId err]\<rparr>)
         | _ \<Rightarrow> \<lparr>result = Inr done, store = db, calls = [], logged = []\<rparr>)
      else \<lparr>result = Inr done, store = db, calls = [], logged = []\<rparr>)"

section \<open>\<open>POST /stripe/checkout/:priceId\<close>\<close>

text \<open>The search query \<^verbatim>\<open>metadata['pnid_pid']:'${pid}'\<close>.\<close>

definition search_query :: "nat \<Rightarrow> string" where
  "search_query p = ''metadata['pnid_pid']:'' @ [CHR 0x27] @ template_nat p @ [CHR 0x27]"

definition checkout_set :: "customer \<Rightarrow> field_set list" where
  "checkout_set c = [Set_customer_id (Val (cus_id c)), Set_latest_webhook_timestamp (Val 0)]"

definition checkout_session_params :: "config \<Rightarrow> string \<Rightarrow> customer \<Rightarrow> session_params" where
  "checkout_session_params cfg priceId c =
     \<lparr>line_items = [\<lparr>price = priceId, quantity = 1\<rparr>],
      session_customer = cus_id c,
      mode = ''subscription'',
      success_url = http_base_url cfg @ ''/account?upgrade_success=true'',
      cancel_url = http_base_url cfg @ ''/account?upgrade_success=false''\<rparr>"

definition staff_message :: string where
  "staff_message = ''Staff members do not need to purchase tiers''"

text \<open>
  Lines 313 to 327 of the handler, the resolution of the customer: the first customer the
  search returns, or a new one created with the account's email and the pid in its
  metadata. The second component is the calls made.
\<close>

definition resolve_customer ::
  "'e stripe_api \<Rightarrow> account \<Rightarrow> (js_error + customer) \<times> 'e call list" where
  "resolve_customer stripe acc =
     (let p = account_pid acc;
          c1 = [Customers_search (search_query p)]
      in
      case customers_search stripe (search_query p) of
        Inl err \<Rightarrow> (Inl err, c1)
      | Inr searchResults \<Rightarrow>
          (case searchResults of
             first # _ \<Rightarrow> (Inr first, c1)
           | [] \<Rightarrow> (customers_create stripe (account_email_address acc) p,
                    c1 @ [Customers_create (account_email_address acc) p])))"

text \<open>
  The search, the creation of a customer, the update and the lookup stand outside the
  \<open>try\<close>: an error of the provider there rejects the handler's promise. Reading
  \<open>access_level\<close> of a lookup that found nothing would throw a TypeError.
\<close>

definition checkout ::
  "config \<Rightarrow> 'e stripe_api \<Rightarrow> account \<Rightarrow> string \<Rightarrow> database \<Rightarrow> 'e outcome" where
  "checkout cfg stripe acc priceId db =
     (let p = account_pid acc in
      case resolve_customer stripe acc of
        (Inl err, c2) \<Rightarrow> \<lparr>result = Inl err, store = db, calls = c2, logged = []\<rparr>
      | (Inr c, c2) \<Rightarrow>
          (let db' = updateOne p (checkout_set c) True db;
               c3 = c2 @ [PNID_updateOne p (checkout_set c) True, PNID_findOne p]
           in
           case findOne p db' of
             None \<Rightarrow>
               \<lparr>result = Inl (Error ''TypeError: Cannot read properties of null''),
                store = db', calls = c3, logged = []\<rparr>
           | Some d \<Rightarrow>
               if access_level d \<ge> 2 then
                 \<lparr>result = Inr (redirect [(''error_message'', staff_message, cookie_domain)]
                                 ''/account''),
                  store = db', calls = c3, logged = []\<rparr>
               else
                 (let params = checkout_session_params cfg priceId c;
                      c4 = c3 @ [Checkout_sessions_create params]
                  in
                  case checkout_sessions_create stripe params of
                    Inr s \<Rightarrow>
                      \<lparr>result = Inr \<lparr>cookies = [], reply = Redirect 303 (session_url s)\<rparr>,
                       store = db', calls = c4, logged = []\<rparr>
                  | Inl err \<Rightarrow>
                      \<lparr>result = Inr (redirect [(''error_message'', message err, cookie_domain)]
                                      ''/account''),
                       store = db', calls = c4, logged = []\<rparr>)))"

text \<open>The handler answers 303 only when the session was created.\<close>

fun is_see_other :: "js_error + response \<Rightarrow> bool" where
  "is_see_other (Inr r) = (case reply r of Redirect st _ \<Rightarrow> st = 303 | _ \<Rightarrow> False)"
| "is_see_other (Inl _) = False"

section \<open>\<open>POST /stripe/webhook\<close>\<close>

text \<open>
  \<open>util.handleStripeEvent\<close> is defined outside the route file: it is a parameter, a
  function from the event and the collection to the collection it leaves and the error it
  throws, if any.
\<close>

definition webhook ::
  "config \<Rightarrow> 'e stripe_api \<Rightarrow> ('e \<Rightarrow> database \<Rightarrow> js_error option \<times> database)
     \<Rightarrow> string \<Rightarrow> string option \<Rightarrow> database \<Rightarrow> 'e outcome" where
  "webhook cfg stripe handleStripeEvent body stripeSignature db =
     (let c1 = [Webhooks_constructEvent body stripeSignature (stripe_webhook_secret cfg)] in
      case webhooks_constructEvent stripe body stripeSignature (stripe_webhook_secret cfg) of
        Inl err \<Rightarrow>
          \<lparr>result = Inr \<lparr>cookies = [], reply = Send 400 (''Webhook Error: '' @ message err)\<rparr>,
           store = db, calls = c1, logged = []\<rparr>
      | Inr event \<Rightarrow>
          (case handleStripeEvent event db of
             (Some err, db') \<Rightarrow>
               \<lparr>result = Inl err, store = db', calls = c1 @ [HandleStripeEvent event], logged = []\<rparr>
           | (None, db') \<Rightarrow>
               \<lparr>result = Inr \<lparr>cookies = [], reply = Json 200 [(''received'', True)]\<rparr>,
                store = db', calls = c1 @ [HandleStripeEvent event], logged = []\<rparr>))"

section \<open>The watermark comparison\<close>

text \<open>
  Modelled from the spec: the watermark comparison of the Entitlement Reconciler
  (\<open>util.handleStripeEvent\<close>, which is not part of the route file). By invariant I3 an
  incoming event whose timestamp is at most the stored watermark is a no-op, already
  applied or stale.
\<close>

definition watermark_stale :: "int \<Rightarrow> int \<Rightarrow> bool" where
  "watermark_stale event_timestamp watermark = (event_timestamp \<le> watermark)"

section \<open>The Unsubscribed transition of the reconciler\<close>

text \<open>
  Modelled from the spec: the Unsubscribed transition of the Entitlement Reconciler
  (\<open>util.handleStripeEvent\<close>, which is not part of the route file), applied on
  \<open>subscription.deleted\<close> or an inactive status. By section 4.3 it nulls out
  \<open>subscription_id\<close>, \<open>price_id\<close>, \<open>tier_level\<close> and \<open>tier_name\<close>, and if
  \<open>access_level\<close> is below 2 it also resets \<open>access_level\<close> to 0.
\<close>

definition unsubscribed_transition :: "pnid \<Rightarrow> pnid" where
  "unsubscribed_transition d =
     (let d' = d\<lparr>subscription_id := Null, price_id := Null, tier_level := Null, tier_name := Null\<rparr>
      in if access_level d < 2 then d'\<lparr>access_level := 0\<rparr> else d')"

section \<open>Example inputs\<close>

definition ex_config :: config where
  "ex_config = \<lparr>http_base_url = ''https://example.test'', stripe_webhook_secret = ''whsec''\<rparr>"

definition ex_account :: account where
  "ex_account = \<lparr>account_pid = 7, account_email_address = ''user@example.test''\<rparr>"

definition ex_pnid :: pnid where
  "ex_pnid =
     \<lparr>pid = 7, access_level = 1, customer_id = Val ''cus_A'', subscription_id = Val ''sub_1'',
      price_id = Val ''price_1'', tier_level = Val 1, tier_name = Val ''Tier 1'',
      latest_webhook_timestamp = Val 100\<rparr>"

definition ex_staff :: pnid where
  "ex_staff = ex_pnid\<lparr>access_level := 3\<rparr>"

definition ex_unsubscribed :: pnid where
  "ex_unsubscribed =
     ex_pnid\<lparr>access_level := 0, subscription_id := Null, price_id := Null,
             tier_level := Val 0, tier_name := Null\<rparr>"

definition ex_db :: "pnid \<Rightarrow> database" where
  "ex_db d = \<lparr>docs = Map.empty(pid d \<mapsto> d), schema_defaults = ex_unsubscribed\<rparr>"


text \<open>
  A provider that knows the customer \<open>cus_A\<close> of pid 7, creates sessions, cancels
  subscriptions and accepts the signature \<open>good\<close> only.
\<close>

definition ex_stripe :: "string stripe_api" where
  "ex_stripe =
     \<lparr>customers_search = (\<lambda>q. Inr (if q = search_query 7 then [\<lparr>cus_id = ''cus_A''\<rparr>] else [])),
      customers_create = (\<lambda>email p. Inr \<lparr>cus_id = ''cus_new''\<rparr>),
      checkout_sessions_create = (\<lambda>ps. Inr \<lparr>session_url = ''https://pay.example.test/s''\<rparr>),
      subscriptions_del = (\<lambda>sid. Inr ()),
      webhooks_constructEvent =
        (\<lambda>body sig secret. if sig = Some ''good'' then Inr body else Inl (Error ''bad signature''))\<rparr>"

text \<open>The same provider with no customer on record, and one whose cancellation fails.\<close>

definition ex_stripe_empty :: "string stripe_api" where
  "ex_stripe_empty = ex_stripe\<lparr>customers_search := (\<lambda>q. Inr [])\<rparr>"

definition ex_stripe_down :: "string stripe_api" where
  "ex_stripe_down = ex_stripe\<lparr>subscriptions_del := (\<lambda>sid. Inl (Error ''timeout''))\<rparr>"

text \<open>An event handler that applies nothing and does not throw (a stale event).\<close>

definition ex_handler :: "string \<Rightarrow> database \<Rightarrow> js_error option \<times> database" where
  "ex_handler event db = (None, db)"

section \<open>Facts about the collection and the handlers\<close>

lemma docs_updateOne_other: "q \<noteq> p \<Longrightarrow> docs (updateOne p upd u db) q = docs db q"
  by (simp add: updateOne_def split: option.splits)

lemma docs_updateOne_found:
  "docs db p = Some d \<Longrightarrow> docs (updateOne p upd u db) p = Some (apply_set upd d)"
  by (simp add: updateOne_def)

lemma docs_updateOne_inserted:
  "docs db p = None \<Longrightarrow>
   docs (updateOne p upd True db) p = Some (apply_set upd ((schema_defaults db)\<lparr>pid := p\<rparr>))"
  by (simp add: updateOne_def)

lemma apply_set_checkout:
  "apply_set (checkout_set c) d = d\<lparr>customer_id := Val (cus_id c), latest_webhook_timestamp := Val 0\<rparr>"
  by (simp add: apply_set_def checkout_set_def)

lemma apply_set_unsubscribe:
  "apply_set (unsubscribe_updateData p) d =
     d\<lparr>subscription_id := Null, price_id := Null, tier_level := Val 0, tier_name := Null,
       access_level := (if access_level p < 2 then 0 else access_level d)\<rparr>"
  by (simp add: apply_set_def unsubscribe_updateData_def)

lemma findOne_after_upsert_not_None:
  "findOne p (updateOne p upd True db) \<noteq> None"
  by (simp add: findOne_def updateOne_def split: option.splits)

lemma checkout_rejected:
  "fst (resolve_customer stripe acc) = Inl err \<Longrightarrow>
   checkout cfg stripe acc priceId db =
     \<lparr>result = Inl err, store = db, calls = snd (resolve_customer stripe acc), logged = []\<rparr>"
  by (cases "resolve_customer stripe acc") (simp add: checkout_def)

lemma checkout_store:
  "fst (resolve_customer stripe acc) = Inr c \<Longrightarrow>
   store (checkout cfg stripe acc priceId db) = updateOne (account_pid acc) (checkout_set c) True db"
  by (cases "resolve_customer stripe acc")
     (simp add: checkout_def Let_def split: option.splits sum.splits)

lemma checkout_staff_outcome:
  assumes "fst (resolve_customer stripe acc) = Inr c"
      and "docs (updateOne (account_pid acc) (checkout_set c) True db) (account_pid acc) = Some d"
      and "access_level d \<ge> 2"
  shows "checkout cfg stripe acc priceId db =
     \<lparr>result = Inr (redirect [(''error_message'', staff_message, cookie_domain)] ''/account''),
      store = updateOne (account_pid acc) (checkout_set c) True db,
      calls = snd (resolve_customer stripe acc)
              @ [PNID_updateOne (account_pid acc) (checkout_set c) True, PNID_findOne (account_pid acc)],
      logged = []\<rparr>"
  using assms by (cases "resolve_customer stripe acc") (simp add: checkout_def Let_def findOne_def)

lemma checkout_user_calls:
  assumes "fst (resolve_customer stripe acc) = Inr c"
      and "docs (updateOne (account_pid acc) (checkout_set c) True db) (account_pid acc) = Some d"
      and "\<not> access_level d \<ge> 2"
  shows "calls (checkout cfg stripe acc priceId db) =
           snd (resolve_customer stripe acc)
           @ [PNID_updateOne (account_pid acc) (checkout_set c) True, PNID_findOne (account_pid acc),
              Checkout_sessions_create (checkout_session_params cfg priceId c)]"
    and "result (checkout cfg stripe acc priceId db) =
           (case checkout_sessions_create stripe (checkout_session_params cfg priceId c) of
              Inr s \<Rightarrow> Inr \<lparr>cookies = [], reply = Redirect 303 (session_url s)\<rparr>
            | Inl err \<Rightarrow> Inr (redirect [(''error_message'', message err, cookie_domain)] ''/account''))"
  using assms by (cases "resolve_customer stripe acc"; simp add: checkout_def Let_def findOne_def split: sum.splits)+

lemma resolve_customer_found:
  "customers_search stripe (search_query (account_pid acc)) = Inr (first # rest) \<Longrightarrow>
   resolve_customer stripe acc = (Inr first, [Customers_search (search_query (account_pid acc))])"
  by (simp add: resolve_customer_def)

lemma resolve_customer_created:
  "customers_search stripe (search_query (account_pid acc)) = Inr [] \<Longrightarrow>
   resolve_customer stripe acc =
     (customers_create stripe (account_email_address acc) (account_pid acc),
      [Customers_search (search_query (account_pid acc)),
       Customers_create (account_email_address acc) (account_pid acc)])"
  by (simp add: resolve_customer_def Let_def)

lemma resolve_customer_search_failed:
  "customers_search stripe (search_query (account_pid acc)) = Inl err \<Longrightarrow>
   resolve_customer stripe acc = (Inl err, [Customers_search (search_query (account_pid acc))])"
  by (simp add: resolve_customer_def)

lemma resolve_customer_no_session:
  "Checkout_sessions_create ps \<notin> set (snd (resolve_customer stripe acc))"
  by (simp add: resolve_customer_def Let_def split: sum.splits list.splits)

lemma unsubscribe_requests_cancellation:
  "subscription_id p = Val sid \<Longrightarrow>
   (Subscriptions_del sid \<in> set (calls (unsubscribe stripe p db))) = (sid \<noteq> [])"
  by (simp add: unsubscribe_def Let_def split: sum.splits)

lemma unsubscribe_cancellation_requested:
  "Subscriptions_del sid \<in> set (calls (unsubscribe stripe p db)) \<Longrightarrow>
   subscription_id p = Val sid \<and> sid \<noteq> []"
  by (auto simp add: unsubscribe_def Let_def split: nullable.splits sum.splits if_splits)

lemma unsubscribe_cancelled:
  assumes "subscription_id p = Val sid" and "sid \<noteq> []" and "subscriptions_del stripe sid = Inr u"
  shows "unsubscribe stripe p db =
           \<lparr>result = Inr (redirect [(''success'', ''Unsubscribed from '' @ template_str (tier_name p),
                                    cookie_domain)] ''/account''),
            store = updateOne (pid p) (unsubscribe_updateData p) False db,
            calls = [Subscriptions_del sid, PNID_updateOne (pid p) (unsubscribe_updateData p) False],
            logged = []\<rparr>"
  using assms by (simp add: unsubscribe_def Let_def)

lemma unsubscribe_failed:
  assumes "subscription_id p = Val sid" and "sid \<noteq> []" and "subscriptions_del stripe sid = Inl err"
  shows "unsubscribe stripe p db =
           \<lparr>result = Inr (redirect [(''error_message'',
                                    ''Error canceling subscription! Contact support if issue persists'',
                                    cookie_domain)] ''/account''),
            store = db,
            calls = [Subscriptions_del sid],
            logged = [unsubscribe_log_line p sid err]\<rparr>"
  using assms by (simp add: unsubscribe_def Let_def)

lemma unsubscribe_skipped:
  assumes "\<not> truthy (subscription_id p)"
  shows "unsubscribe stripe p db =
           \<lparr>result = Inr (redirect [(''success'', ''Unsubscribed from '' @ template_str (tier_name p),
                                    cookie_domain)] ''/account''),
            store = db, calls = [], logged = []\<rparr>"
  using assms by (simp add: unsubscribe_def Let_def)

lemma unsubscribe_store:
  "store (unsubscribe stripe p db) = db
   \<or> store (unsubscribe stripe p db) = updateOne (pid p) (unsubscribe_updateData p) False db"
  by (simp add: unsubscribe_def Let_def split: nullable.splits sum.splits)

lemma unsubscribe_access_level:
  assumes "docs db (pid p) = Some p"
  shows "docs (store (unsubscribe stripe p db)) (pid p) = Some p
         \<or> (\<exists>d'. docs (store (unsubscribe stripe p db)) (pid p) = Some d'
               \<and> access_level d' = (if access_level p < 2 then 0 else access_level p))"
  using unsubscribe_store [of stripe p db] assms
  by (auto simp add: docs_updateOne_found apply_set_unsubscribe)

lemma unsubscribe_other_docs:
  "q \<noteq> pid p \<Longrightarrow> docs (store (unsubscribe stripe p db)) q = docs db q"
  using unsubscribe_store [of stripe p db] by (auto simp add: docs_updateOne_other)

lemma checkout_frame:
  assumes "docs db q = Some d"
  shows "docs (store (checkout cfg stripe acc priceId db)) q = Some d
         \<or> (\<exists>c. fst (resolve_customer stripe acc) = Inr c \<and> q = account_pid acc
                \<and> docs (store (checkout cfg stripe acc priceId db)) q =
                    Some (d\<lparr>customer_id := Val (cus_id c), latest_webhook_timestamp := Val 0\<rparr>))"
proof (cases "fst (resolve_customer stripe acc)")
  case (Inl err)
  then show ?thesis using assms by (simp add: checkout_rejected)
next
  case (Inr c)
  show ?thesis
  proof (cases "q = account_pid acc")
    case True
    with Inr assms show ?thesis
      by (simp add: checkout_store docs_updateOne_found apply_set_checkout)
  next
    case False
    with Inr assms show ?thesis
      by (simp add: checkout_store docs_updateOne_other)
  qed
qed

lemma checkout_inserted:
  assumes "docs db (account_pid acc) = None" and "fst (resolve_customer stripe acc) = Inr c"
  shows "docs (store (checkout cfg stripe acc priceId db)) (account_pid acc) =
           Some ((schema_defaults db)\<lparr>pid := account_pid acc, customer_id := Val (cus_id c),
                                     latest_webhook_timestamp := Val 0\<rparr>)"
  using assms by (simp add: checkout_store docs_updateOne_inserted apply_set_checkout)

lemma checkout_calls_prefix:
  assumes "fst (resolve_customer stripe acc) = Inr c"
  shows "\<exists>rest. calls (checkout cfg stripe acc priceId db) =
           snd (resolve_customer stripe acc)
           @ [PNID_updateOne (account_pid acc) (checkout_set c) True, PNID_findOne (account_pid acc)]
           @ rest
         \<and> (rest = [] \<or> rest = [Checkout_sessions_create (checkout_session_params cfg priceId c)])"
  using assms
  by (cases "resolve_customer stripe acc")
     (simp add: checkout_def Let_def split: option.splits sum.splits)

lemma checkout_see_other:
  assumes "is_see_other (result (checkout cfg stripe acc priceId db))"
  shows "\<exists>c s. fst (resolve_customer stripe acc) = Inr c
           \<and> checkout_sessions_create stripe (checkout_session_params cfg priceId c) = Inr s
           \<and> result (checkout cfg stripe acc priceId db) =
               Inr \<lparr>cookies = [], reply = Redirect 303 (session_url s)\<rparr>
           \<and> calls (checkout cfg stripe acc priceId db) =
               snd (resolve_customer stripe acc)
               @ [PNID_updateOne (account_pid acc) (checkout_set c) True,
                  PNID_findOne (account_pid acc),
                  Checkout_sessions_create (checkout_session_params cfg priceId c)]"
  using assms
  by (cases "resolve_customer stripe acc")
     (auto simp add: checkout_def Let_def redirect_def split: option.splits sum.splits if_splits)

lemma checkout_watermark_reset:
  assumes "fst (resolve_customer stripe acc) = Inr c"
  shows "\<exists>d'. docs (store (checkout cfg stripe acc priceId db)) (account_pid acc) = Some d'
           \<and> customer_id d' = Val (cus_id c) \<and> latest_webhook_timestamp d' = Val 0"
proof (cases "docs db (account_pid acc)")
  case None
  then show ?thesis using assms by (simp add: checkout_inserted)
next
  case (Some d)
  then show ?thesis using assms
    by (simp add: checkout_store docs_updateOne_found apply_set_checkout)
qed

text \<open>The upsert inserts the document the lookup then finds: the handler rejects only with an
  error of the provider during the resolution, and has written nothing then.\<close>

lemma checkout_rejects_only_in_resolution:
  "result (checkout cfg stripe acc priceId db) = Inl err \<Longrightarrow>
   fst (resolve_customer stripe acc) = Inl err \<and> store (checkout cfg stripe acc priceId db) = db"
  by (cases "resolve_customer stripe acc")
     (auto simp add: checkout_def Let_def findOne_after_upsert_not_None
           split: sum.splits option.splits if_splits)

text \<open>The decimal digits of a pid determine it, so the query of a user is the query of no other.\<close>

lemma template_nat_not_Nil: "template_nat n \<noteq> []"
  by (subst template_nat.simps) (simp del: template_nat.simps)

lemma digit_char_inj: "m < 10 \<Longrightarrow> n < 10 \<Longrightarrow> digit_char m = digit_char n \<Longrightarrow> m = n"
  by (simp add: char_of_eq_iff take_bit_nat_eq_self)

lemma template_nat_inj: "template_nat m = template_nat n \<Longrightarrow> m = n"
proof (induction m arbitrary: n rule: template_nat.induct)
  case (1 m)
  note eq = \<open>template_nat m = template_nat n\<close>
  show ?case
  proof (cases "m < 10")
    case small_m: True
    then have m: "template_nat m = [digit_char m]"
      by (subst template_nat.simps) (simp del: template_nat.simps)
    show ?thesis
    proof (cases "n < 10")
      case True
      then have "template_nat n = [digit_char n]"
        by (subst template_nat.simps) (simp del: template_nat.simps)
      with eq m have "digit_char m = digit_char n" by (simp del: digit_char.simps)
      with small_m True show ?thesis by (rule digit_char_inj)
    next
      case False
      then have "template_nat n = template_nat (n div 10) @ [digit_char (n mod 10)]"
        by (subst template_nat.simps) (simp del: template_nat.simps)
      with eq m have "template_nat (n div 10) = []"
        by (simp del: template_nat.simps digit_char.simps add: Cons_eq_append_conv)
      then show ?thesis by (simp only: template_nat_not_Nil)
    qed
  next
    case big_m: False
    then have m: "template_nat m = template_nat (m div 10) @ [digit_char (m mod 10)]"
      by (subst template_nat.simps) (simp del: template_nat.simps)
    show ?thesis
    proof (cases "n < 10")
      case True
      then have "template_nat n = [digit_char n]"
        by (subst template_nat.simps) (simp del: template_nat.simps)
      with eq m have "template_nat (m div 10) = []"
        by (simp del: template_nat.simps digit_char.simps add: append_eq_Cons_conv)
      then show ?thesis by (simp only: template_nat_not_Nil)
    next
      case False
      then have "template_nat n = template_nat (n div 10) @ [digit_char (n mod 10)]"
        by (subst template_nat.simps) (simp del: template_nat.simps)
      with eq m have t: "template_nat (m div 10) = template_nat (n div 10)"
        and d: "digit_char (m mod 10) = digit_char (n mod 10)"
        by (simp_all del: template_nat.simps digit_char.simps)
      from "1.IH" [OF big_m t] have q: "m div 10 = n div 10" .
      have "m mod 10 = n mod 10"
        by (rule digit_char_inj [OF _ _ d]) simp_all
      with q show ?thesis by (metis div_mult_mod_eq)
    qed
  qed
qed

lemma search_query_inj: "search_query p = search_query q \<Longrightarrow> p = q"
  by (rule template_nat_inj) (simp add: search_query_def del: template_nat.simps)

text \<open>What unsubscribe can do to a stored \<open>access_level\<close>.\<close>

lemma docs_updateOne_plain_missing:
  "docs db p = None \<Longrightarrow> updateOne p upd False db = db"
  by (simp add: updateOne_def)

lemma unsubscribe_level_change:
  assumes "docs db q = Some d"
      and "docs (store (unsubscribe stripe p db)) q = Some d'"
      and "access_level d' \<noteq> access_level d"
  shows "q = pid p \<and> access_level p < 2 \<and> access_level d' = 0"
proof -
  from unsubscribe_store [of stripe p db]
  have upd: "store (unsubscribe stripe p db) = updateOne (pid p) (unsubscribe_updateData p) False db"
    using assms by auto
  have q: "q = pid p"
  proof (rule ccontr)
    assume "q \<noteq> pid p"
    with upd assms show False by (simp add: docs_updateOne_other)
  qed
  with upd assms(1,2) have "d' = apply_set (unsubscribe_updateData p) d"
    by (simp add: docs_updateOne_found)
  with assms(3) q show ?thesis
    by (simp add: apply_set_unsubscribe split: if_splits)
qed

lemma unsubscribe_staff_request:
  assumes "access_level p \<ge> 2"
  shows "map_option access_level (docs (store (unsubscribe stripe p db)) q) =
         map_option access_level (docs db q)"
proof (cases "docs db q")
  case None
  have "docs (store (unsubscribe stripe p db)) q = None"
  proof (cases "q = pid p")
    case True
    with None have "updateOne (pid p) (unsubscribe_updateData p) False db = db"
      by (simp add: docs_updateOne_plain_missing)
    with unsubscribe_store [of stripe p db] None show ?thesis by auto
  next
    case False
    with unsubscribe_store [of stripe p db] None show ?thesis
      by (auto simp add: docs_updateOne_other)
  qed
  with None show ?thesis by simp
next
  case (Some d)
  have "\<exists>d'. docs (store (unsubscribe stripe p db)) q = Some d'"
    using unsubscribe_store [of stripe p db] Some
    by (cases "q = pid p") (auto simp add: docs_updateOne_other docs_updateOne_found)
  then obtain d' where d': "docs (store (unsubscribe stripe p db)) q = Some d'" ..
  have "access_level d' = access_level d"
  proof (rule ccontr)
    assume "access_level d' \<noteq> access_level d"
    from unsubscribe_level_change [OF Some d' this] assms show False by simp
  qed
  with Some d' show ?thesis by simp
qed

section \<open>The checkout handler\<close>

text \<open>
  Claim C1, as stated: every checkout initiation by a staff account (\<open>access_level\<close> at
  least 2) fails with a policy error and changes none of the account's persisted billing
  fields, \<open>customer_id\<close> and \<open>latest_webhook_timestamp\<close> in particular.

  The handler writes before it checks the level. For the staff account \<open>ex_staff\<close>, with
  customer \<open>cus_A\<close> and watermark 100, and a provider whose search finds no customer, the
  staff message is answered, yet the stored document then has the customer \<open>cus_new\<close> and
  the watermark 0.
\<close>

theorem checkout_staff_counterexample:
  "docs (ex_db ex_staff) (account_pid ex_account) = Some ex_staff
   \<and> access_level ex_staff \<ge> 2
   \<and> customer_id ex_staff = Val ''cus_A''
   \<and> latest_webhook_timestamp ex_staff = Val 100
   \<and> result (checkout ex_config ex_stripe_empty ex_account ''price_1'' (ex_db ex_staff)) =
       Inr (redirect [(''error_message'', staff_message, cookie_domain)] ''/account'')
   \<and> docs (store (checkout ex_config ex_stripe_empty ex_account ''price_1'' (ex_db ex_staff)))
         (account_pid ex_account) =
       Some (ex_staff\<lparr>customer_id := Val ''cus_new'', latest_webhook_timestamp := Val 0\<rparr>)
   \<and> store (checkout ex_config ex_stripe_empty ex_account ''price_1'' (ex_db ex_staff))
       \<noteq> ex_db ex_staff"
proof -
  have r: "resolve_customer ex_stripe_empty ex_account =
             (Inr \<lparr>cus_id = ''cus_new''\<rparr>,
              [Customers_search (search_query 7), Customers_create ''user@example.test'' 7])"
    by (simp add: resolve_customer_def ex_stripe_empty_def ex_stripe_def ex_account_def Let_def)
  have d: "docs (ex_db ex_staff) (account_pid ex_account) = Some ex_staff"
    by (simp add: ex_db_def ex_staff_def ex_pnid_def ex_account_def)
  have s: "docs (store (checkout ex_config ex_stripe_empty ex_account ''price_1'' (ex_db ex_staff)))
             (account_pid ex_account) =
           Some (ex_staff\<lparr>customer_id := Val ''cus_new'', latest_webhook_timestamp := Val 0\<rparr>)"
    by (simp add: checkout_store r docs_updateOne_found [OF d] apply_set_checkout)
  have a: "access_level ex_staff \<ge> 2" "customer_id ex_staff = Val ''cus_A''"
     "latest_webhook_timestamp ex_staff = Val 100"
    by (simp_all add: ex_staff_def ex_pnid_def)
  have u: "docs (updateOne (account_pid ex_account) (checkout_set \<lparr>cus_id = ''cus_new''\<rparr>) True
                   (ex_db ex_staff)) (account_pid ex_account) =
           Some (ex_staff\<lparr>customer_id := Val ''cus_new'', latest_webhook_timestamp := Val 0\<rparr>)"
    by (simp add: docs_updateOne_found [OF d] apply_set_checkout)
  have res: "result (checkout ex_config ex_stripe_empty ex_account ''price_1'' (ex_db ex_staff)) =
       Inr (redirect [(''error_message'', staff_message, cookie_domain)] ''/account'')"
    by (subst checkout_staff_outcome [OF _ u]) (simp_all add: r a)
  have ne: "store (checkout ex_config ex_stripe_empty ex_account ''price_1'' (ex_db ex_staff))
       \<noteq> ex_db ex_staff"
  proof
    assume "store (checkout ex_config ex_stripe_empty ex_account ''price_1'' (ex_db ex_staff))
              = ex_db ex_staff"
    with s d have "ex_staff\<lparr>customer_id := Val ''cus_new'', latest_webhook_timestamp := Val 0\<rparr>
                    = ex_staff" by simp
    then have "latest_webhook_timestamp
                 (ex_staff\<lparr>customer_id := Val ''cus_new'', latest_webhook_timestamp := Val 0\<rparr>)
               = latest_webhook_timestamp ex_staff" by simp
    then show False by (simp add: a)
  qed
  from d a res s ne show ?thesis by simp
qed

text \<open>
  Claim C1, amended. For every checkout initiation by a stored account with
  \<open>access_level\<close> at least 2: when the customer is resolved, the handler answers with the
  staff message and creates no checkout session, every other document is as before, and the
  account's document differs from the one before exactly in \<open>customer_id\<close>, now the
  resolved customer's id, and \<open>latest_webhook_timestamp\<close>, now 0 (so the tier fields and
  \<open>access_level\<close> are unchanged); when the provider throws during the resolution, the
  handler rejects with that error and the collection is unchanged.
\<close>

theorem checkout_staff_rejected_after_write:
  assumes "docs db (account_pid acc) = Some d" and "access_level d \<ge> 2"
  shows "case fst (resolve_customer stripe acc) of
           Inr c \<Rightarrow>
             result (checkout cfg stripe acc priceId db) =
               Inr (redirect [(''error_message'', staff_message, cookie_domain)] ''/account'')
             \<and> (\<forall>ps. Checkout_sessions_create ps \<notin> set (calls (checkout cfg stripe acc priceId db)))
             \<and> docs (store (checkout cfg stripe acc priceId db)) (account_pid acc) =
                 Some (d\<lparr>customer_id := Val (cus_id c), latest_webhook_timestamp := Val 0\<rparr>)
             \<and> (\<forall>q. q \<noteq> account_pid acc \<longrightarrow>
                   docs (store (checkout cfg stripe acc priceId db)) q = docs db q)
         | Inl err \<Rightarrow>
             result (checkout cfg stripe acc priceId db) = Inl err
             \<and> store (checkout cfg stripe acc priceId db) = db"
proof (cases "fst (resolve_customer stripe acc)")
  case (Inl err)
  then show ?thesis by (simp add: checkout_rejected)
next
  case (Inr c)
  let ?d' = "d\<lparr>customer_id := Val (cus_id c), latest_webhook_timestamp := Val 0\<rparr>"
  have u: "docs (updateOne (account_pid acc) (checkout_set c) True db) (account_pid acc) = Some ?d'"
    by (simp add: docs_updateOne_found [OF assms(1)] apply_set_checkout)
  have lvl: "access_level ?d' \<ge> 2" using assms(2) by simp
  note out = checkout_staff_outcome [OF Inr u lvl]
  have "\<forall>ps. Checkout_sessions_create ps \<notin> set (calls (checkout cfg stripe acc priceId db))"
    by (simp add: out resolve_customer_no_session)
  moreover have "\<forall>q. q \<noteq> account_pid acc \<longrightarrow>
                   docs (store (checkout cfg stripe acc priceId db)) q = docs db q"
    by (simp add: out docs_updateOne_other)
  moreover have "docs (store (checkout cfg stripe acc priceId db)) (account_pid acc) = Some ?d'"
    by (simp add: out u)
  moreover have "result (checkout cfg stripe acc priceId db) =
               Inr (redirect [(''error_message'', staff_message, cookie_domain)] ''/account'')"
    by (simp add: out)
  ultimately show ?thesis using Inr by simp
qed

theorem checkout_staff_rejected_after_write_witness:
  "docs (ex_db ex_staff) (account_pid ex_account) = Some ex_staff
   \<and> access_level ex_staff \<ge> 2
   \<and> fst (resolve_customer ex_stripe ex_account) = Inr \<lparr>cus_id = ''cus_A''\<rparr>
   \<and> result (checkout ex_config ex_stripe ex_account ''price_1'' (ex_db ex_staff)) =
       Inr (redirect [(''error_message'', staff_message, cookie_domain)] ''/account'')
   \<and> docs (store (checkout ex_config ex_stripe ex_account ''price_1'' (ex_db ex_staff)))
         (account_pid ex_account) =
       Some (ex_staff\<lparr>customer_id := Val ''cus_A'', latest_webhook_timestamp := Val 0\<rparr>)"
proof -
  have h1: "docs (ex_db ex_staff) (account_pid ex_account) = Some ex_staff"
    by (simp add: ex_db_def ex_staff_def ex_pnid_def ex_account_def)
  have h2: "access_level ex_staff \<ge> 2"
    by (simp add: ex_staff_def)
  have r: "fst (resolve_customer ex_stripe ex_account) = Inr \<lparr>cus_id = ''cus_A''\<rparr>"
    by (simp add: resolve_customer_def ex_stripe_def ex_account_def Let_def)
  from checkout_staff_rejected_after_write [OF h1 h2, where stripe = ex_stripe and cfg = ex_config and priceId = "''price_1''"] h1 h2 r
  show ?thesis by simp
qed

text \<open>
  Claim C6. Checkout writes no tier field: every stored document keeps its
  \<open>subscription_id\<close>, \<open>price_id\<close>, \<open>tier_level\<close> and \<open>tier_name\<close> (and its
  \<open>access_level\<close>), whatever the provider answers; the collection afterwards is either the
  one before or the one before with a single upsert whose \<open>$set\<close> holds the resolved
  \<open>customer_id\<close> and the watermark only.
\<close>

theorem checkout_writes_no_tier_fields:
  "(\<forall>q d. docs db q = Some d \<longrightarrow>
      (\<exists>d'. docs (store (checkout cfg stripe acc priceId db)) q = Some d'
         \<and> subscription_id d' = subscription_id d \<and> price_id d' = price_id d
         \<and> tier_level d' = tier_level d \<and> tier_name d' = tier_name d
         \<and> access_level d' = access_level d))
   \<and> (store (checkout cfg stripe acc priceId db) = db
       \<or> (\<exists>c. fst (resolve_customer stripe acc) = Inr c
             \<and> store (checkout cfg stripe acc priceId db) =
                 updateOne (account_pid acc)
                   [Set_customer_id (Val (cus_id c)), Set_latest_webhook_timestamp (Val 0)] True db))"
proof -
  have "\<exists>d'. docs (store (checkout cfg stripe acc priceId db)) q = Some d'
         \<and> subscription_id d' = subscription_id d \<and> price_id d' = price_id d
         \<and> tier_level d' = tier_level d \<and> tier_name d' = tier_name d
         \<and> access_level d' = access_level d"
    if "docs db q = Some d" for q d
    using checkout_frame [OF that, of cfg stripe acc priceId] by auto
  moreover have "store (checkout cfg stripe acc priceId db) = db
       \<or> (\<exists>c. fst (resolve_customer stripe acc) = Inr c
             \<and> store (checkout cfg stripe acc priceId db) =
                 updateOne (account_pid acc)
                   [Set_customer_id (Val (cus_id c)), Set_latest_webhook_timestamp (Val 0)] True db)"
  proof (cases "fst (resolve_customer stripe acc)")
    case (Inl err)
    then show ?thesis by (simp add: checkout_rejected)
  next
    case (Inr c)
    then show ?thesis by (simp add: checkout_store checkout_set_def)
  qed
  ultimately show ?thesis by blast
qed

theorem checkout_writes_no_tier_fields_witness:
  "docs (ex_db ex_pnid) 7 = Some ex_pnid
   \<and> (\<exists>d'. docs (store (checkout ex_config ex_stripe_empty ex_account ''price_2'' (ex_db ex_pnid))) 7
              = Some d'
         \<and> subscription_id d' = Val ''sub_1'' \<and> price_id d' = Val ''price_1''
         \<and> tier_level d' = Val 1 \<and> tier_name d' = Val ''Tier 1'' \<and> access_level d' = 1)"
proof -
  have h: "docs (ex_db ex_pnid) 7 = Some ex_pnid"
    by (simp add: ex_db_def ex_pnid_def)
  from checkout_writes_no_tier_fields
         [where db = "ex_db ex_pnid" and cfg = ex_config and stripe = ex_stripe_empty
            and acc = ex_account and priceId = "''price_2''"]
  have "\<exists>d'. docs (store (checkout ex_config ex_stripe_empty ex_account ''price_2'' (ex_db ex_pnid))) 7
              = Some d'
         \<and> subscription_id d' = subscription_id ex_pnid \<and> price_id d' = price_id ex_pnid
         \<and> tier_level d' = tier_level ex_pnid \<and> tier_name d' = tier_name ex_pnid
         \<and> access_level d' = access_level ex_pnid"
    using h by blast
  then show ?thesis using h by (simp add: ex_pnid_def)
qed

text \<open>
  Claim C7. Customer resolution searches the provider with the query
  \<^verbatim>\<open>metadata['pnid_pid']:'<pid>'\<close>, the user's pid in decimal digits between the quotes; no
  other pid gives the same query. If the search returns customers, the first is taken and
  nothing is created; if it returns none, a customer is created with the account's email and
  the pid as its \<open>pnid_pid\<close> metadata. The id of the resolved customer is then written to
  the account's document by an upsert, right after the resolution, together with
  \<open>latest_webhook_timestamp = 0\<close>.
\<close>

theorem customer_resolution:
  "(\<forall>other. ''metadata['pnid_pid']:'' @ [CHR 0x27] @ template_nat other @ [CHR 0x27]
             = ''metadata['pnid_pid']:'' @ [CHR 0x27] @ template_nat (account_pid acc) @ [CHR 0x27]
           \<longrightarrow> other = account_pid acc)
   \<and> (\<forall>first rest.
        customers_search stripe
          (''metadata['pnid_pid']:'' @ [CHR 0x27] @ template_nat (account_pid acc) @ [CHR 0x27])
          = Inr (first # rest) \<longrightarrow>
        resolve_customer stripe acc =
          (Inr first,
           [Customers_search
              (''metadata['pnid_pid']:'' @ [CHR 0x27] @ template_nat (account_pid acc)
               @ [CHR 0x27])]))
   \<and> (customers_search stripe
          (''metadata['pnid_pid']:'' @ [CHR 0x27] @ template_nat (account_pid acc) @ [CHR 0x27])
          = Inr [] \<longrightarrow>
        resolve_customer stripe acc =
          (customers_create stripe (account_email_address acc) (account_pid acc),
           [Customers_search
              (''metadata['pnid_pid']:'' @ [CHR 0x27] @ template_nat (account_pid acc)
               @ [CHR 0x27]),
            Customers_create (account_email_address acc) (account_pid acc)]))
   \<and> (\<forall>c. fst (resolve_customer stripe acc) = Inr c \<longrightarrow>
        store (checkout cfg stripe acc priceId db) =
          updateOne (account_pid acc)
            [Set_customer_id (Val (cus_id c)), Set_latest_webhook_timestamp (Val 0)] True db
        \<and> (\<exists>d'. docs (store (checkout cfg stripe acc priceId db)) (account_pid acc) = Some d'
              \<and> customer_id d' = Val (cus_id c) \<and> latest_webhook_timestamp d' = Val 0)
        \<and> (\<exists>rest. calls (checkout cfg stripe acc priceId db) =
              snd (resolve_customer stripe acc)
              @ PNID_updateOne (account_pid acc)
                  [Set_customer_id (Val (cus_id c)), Set_latest_webhook_timestamp (Val 0)] True
              # rest))"
proof -
  have q: "''metadata['pnid_pid']:'' @ [CHR 0x27] @ template_nat n @ [CHR 0x27] = search_query n"
    for n
    by (simp add: search_query_def del: template_nat.simps)
  have tagged: "\<forall>other. search_query other = search_query (account_pid acc)
                  \<longrightarrow> other = account_pid acc"
    by (simp add: search_query_inj)
  have found: "\<forall>first rest.
      customers_search stripe (search_query (account_pid acc)) = Inr (first # rest) \<longrightarrow>
      resolve_customer stripe acc = (Inr first, [Customers_search (search_query (account_pid acc))])"
    by (simp add: resolve_customer_found)
  have created: "customers_search stripe (search_query (account_pid acc)) = Inr [] \<longrightarrow>
        resolve_customer stripe acc =
          (customers_create stripe (account_email_address acc) (account_pid acc),
           [Customers_search (search_query (account_pid acc)),
            Customers_create (account_email_address acc) (account_pid acc)])"
    by (simp add: resolve_customer_created)
  have persisted: "store (checkout cfg stripe acc priceId db) =
          updateOne (account_pid acc)
            [Set_customer_id (Val (cus_id c)), Set_latest_webhook_timestamp (Val 0)] True db
        \<and> (\<exists>d'. docs (store (checkout cfg stripe acc priceId db)) (account_pid acc) = Some d'
              \<and> customer_id d' = Val (cus_id c) \<and> latest_webhook_timestamp d' = Val 0)
        \<and> (\<exists>rest. calls (checkout cfg stripe acc priceId db) =
              snd (resolve_customer stripe acc)
              @ PNID_updateOne (account_pid acc)
                  [Set_customer_id (Val (cus_id c)), Set_latest_webhook_timestamp (Val 0)] True
              # rest)"
    if r: "fst (resolve_customer stripe acc) = Inr c" for c
  proof (intro conjI)
    show "store (checkout cfg stripe acc priceId db) =
          updateOne (account_pid acc)
            [Set_customer_id (Val (cus_id c)), Set_latest_webhook_timestamp (Val 0)] True db"
      using checkout_store [OF r] by (simp add: checkout_set_def)
    show "\<exists>d'. docs (store (checkout cfg stripe acc priceId db)) (account_pid acc) = Some d'
              \<and> customer_id d' = Val (cus_id c) \<and> latest_webhook_timestamp d' = Val 0"
      by (rule checkout_watermark_reset [OF r])
    show "\<exists>rest. calls (checkout cfg stripe acc priceId db) =
              snd (resolve_customer stripe acc)
              @ PNID_updateOne (account_pid acc)
                  [Set_customer_id (Val (cus_id c)), Set_latest_webhook_timestamp (Val 0)] True
              # rest"
      using checkout_calls_prefix [OF r, of cfg priceId db] by (auto simp add: checkout_set_def)
  qed
  from tagged found created persisted show ?thesis
    unfolding q by blast
qed

theorem customer_resolution_witness:
  "customers_search ex_stripe (''metadata['pnid_pid']:'' @ [CHR 0x27] @ ''7'' @ [CHR 0x27])
     = Inr [\<lparr>cus_id = ''cus_A''\<rparr>]
   \<and> resolve_customer ex_stripe ex_account =
       (Inr \<lparr>cus_id = ''cus_A''\<rparr>,
        [Customers_search (''metadata['pnid_pid']:'' @ [CHR 0x27] @ ''7'' @ [CHR 0x27])])
   \<and> customers_search ex_stripe_empty (''metadata['pnid_pid']:'' @ [CHR 0x27] @ ''7'' @ [CHR 0x27])
     = Inr []
   \<and> resolve_customer ex_stripe_empty ex_account =
       (Inr \<lparr>cus_id = ''cus_new''\<rparr>,
        [Customers_search (''metadata['pnid_pid']:'' @ [CHR 0x27] @ ''7'' @ [CHR 0x27]),
         Customers_create ''user@example.test'' 7])
   \<and> (\<exists>d'. docs (store (checkout ex_config ex_stripe_empty ex_account ''price_1'' (ex_db ex_pnid))) 7
              = Some d'
         \<and> customer_id d' = Val ''cus_new'' \<and> latest_webhook_timestamp d' = Val 0)
   \<and> template_nat 1204 = ''1204''"
proof -
  have a: "account_pid ex_account = 7" "account_email_address ex_account = ''user@example.test''"
    by (simp_all add: ex_account_def)
  have t: "template_nat 7 = ''7''" by code_simp
  have t': "template_nat 1204 = ''1204''" by code_simp
  have q: "search_query 7 = ''metadata['pnid_pid']:'' @ [CHR 0x27] @ ''7'' @ [CHR 0x27]"
    by code_simp
  have f: "customers_search ex_stripe (''metadata['pnid_pid']:'' @ [CHR 0x27] @ ''7'' @ [CHR 0x27])
             = Inr [\<lparr>cus_id = ''cus_A''\<rparr>]"
    unfolding q [symmetric] by (simp add: ex_stripe_def)
  have e: "customers_search ex_stripe_empty
             (''metadata['pnid_pid']:'' @ [CHR 0x27] @ ''7'' @ [CHR 0x27]) = Inr []"
    by (simp add: ex_stripe_empty_def)
  have n: "customers_create ex_stripe_empty ''user@example.test'' 7 = Inr \<lparr>cus_id = ''cus_new''\<rparr>"
    by (simp add: ex_stripe_empty_def ex_stripe_def)
  note found = customer_resolution
         [where stripe = ex_stripe and acc = ex_account and cfg = ex_config
            and priceId = "''price_1''" and db = "ex_db ex_pnid", unfolded a t]
  note created = customer_resolution
         [where stripe = ex_stripe_empty and acc = ex_account and cfg = ex_config
            and priceId = "''price_1''" and db = "ex_db ex_pnid", unfolded a t]
  from found f have r1: "resolve_customer ex_stripe ex_account =
      (Inr \<lparr>cus_id = ''cus_A''\<rparr>,
       [Customers_search (''metadata['pnid_pid']:'' @ [CHR 0x27] @ ''7'' @ [CHR 0x27])])"
    by blast
  from created e n have r2: "resolve_customer ex_stripe_empty ex_account =
       (Inr \<lparr>cus_id = ''cus_new''\<rparr>,
        [Customers_search (''metadata['pnid_pid']:'' @ [CHR 0x27] @ ''7'' @ [CHR 0x27]),
         Customers_create ''user@example.test'' 7])"
    by simp
  have r2': "fst (resolve_customer ex_stripe_empty ex_account) = Inr \<lparr>cus_id = ''cus_new''\<rparr>"
    by (simp add: r2)
  from created have "\<forall>c. fst (resolve_customer ex_stripe_empty ex_account) = Inr c \<longrightarrow>
      (\<exists>d'. docs (store (checkout ex_config ex_stripe_empty ex_account ''price_1'' (ex_db ex_pnid)))
               7 = Some d'
         \<and> customer_id d' = Val (cus_id c) \<and> latest_webhook_timestamp d' = Val 0)"
    by blast
  with r2' have
    "\<exists>d'. docs (store (checkout ex_config ex_stripe_empty ex_account ''price_1'' (ex_db ex_pnid))) 7
              = Some d'
         \<and> customer_id d' = Val ''cus_new'' \<and> latest_webhook_timestamp d' = Val 0"
    by simp
  with f e r1 r2 t' show ?thesis by blast
qed

text \<open>
  Claim C8. Every successful checkout initiation (the handler answers 303 with the session's
  url) created exactly one checkout session, as its last call: in mode \<open>subscription\<close>,
  with one line item (the chosen price, quantity 1), for the resolved customer's id, and
  with success and cancel urls that share the prefix \<open>base_url/account?upgrade_success=\<close>
  and end in \<open>true\<close> and \<open>false\<close>.
\<close>

theorem checkout_session_shape:
  assumes "is_see_other (result (checkout cfg stripe acc priceId db))"
  shows "\<exists>c s. fst (resolve_customer stripe acc) = Inr c
           \<and> checkout_sessions_create stripe
                 \<lparr>line_items = [\<lparr>price = priceId, quantity = 1\<rparr>],
                  session_customer = cus_id c,
                  mode = ''subscription'',
                  success_url = (http_base_url cfg @ ''/account?upgrade_success='') @ ''true'',
                  cancel_url = (http_base_url cfg @ ''/account?upgrade_success='') @ ''false''\<rparr>
               = Inr s
           \<and> result (checkout cfg stripe acc priceId db) =
               Inr \<lparr>cookies = [], reply = Redirect 303 (session_url s)\<rparr>
           \<and> calls (checkout cfg stripe acc priceId db) =
               snd (resolve_customer stripe acc)
               @ [PNID_updateOne (account_pid acc)
                    [Set_customer_id (Val (cus_id c)), Set_latest_webhook_timestamp (Val 0)] True,
                  PNID_findOne (account_pid acc),
                  Checkout_sessions_create
                    \<lparr>line_items = [\<lparr>price = priceId, quantity = 1\<rparr>],
                     session_customer = cus_id c,
                     mode = ''subscription'',
                     success_url = (http_base_url cfg @ ''/account?upgrade_success='') @ ''true'',
                     cancel_url = (http_base_url cfg @ ''/account?upgrade_success='') @ ''false''\<rparr>]
           \<and> (\<forall>ps. Checkout_sessions_create ps \<notin> set (snd (resolve_customer stripe acc)))"
  using checkout_see_other [OF assms]
  by (simp add: checkout_session_params_def checkout_set_def resolve_customer_no_session)

theorem checkout_session_shape_witness:
  "is_see_other (result (checkout ex_config ex_stripe ex_account ''price_2'' (ex_db ex_pnid)))
   \<and> calls (checkout ex_config ex_stripe ex_account ''price_2'' (ex_db ex_pnid)) =
       [Customers_search (search_query 7),
        PNID_updateOne 7 [Set_customer_id (Val ''cus_A''), Set_latest_webhook_timestamp (Val 0)] True,
        PNID_findOne 7,
        Checkout_sessions_create
          \<lparr>line_items = [\<lparr>price = ''price_2'', quantity = 1\<rparr>],
           session_customer = ''cus_A'',
           mode = ''subscription'',
           success_url = ''https://example.test/account?upgrade_success=true'',
           cancel_url = ''https://example.test/account?upgrade_success=false''\<rparr>]"
proof -
  have r: "resolve_customer ex_stripe ex_account =
             (Inr \<lparr>cus_id = ''cus_A''\<rparr>, [Customers_search (search_query 7)])"
    by (simp add: resolve_customer_def ex_stripe_def ex_account_def Let_def)
  have d: "docs (ex_db ex_pnid) (account_pid ex_account) = Some ex_pnid"
    by (simp add: ex_db_def ex_pnid_def ex_account_def)
  have u: "docs (updateOne (account_pid ex_account) (checkout_set \<lparr>cus_id = ''cus_A''\<rparr>) True
                   (ex_db ex_pnid)) (account_pid ex_account) =
           Some (ex_pnid\<lparr>customer_id := Val ''cus_A'', latest_webhook_timestamp := Val 0\<rparr>)"
    by (simp add: docs_updateOne_found [OF d] apply_set_checkout)
  have l: "\<not> access_level (ex_pnid\<lparr>customer_id := Val ''cus_A'', latest_webhook_timestamp := Val 0\<rparr>) \<ge> 2"
    by (simp add: ex_pnid_def)
  have r': "fst (resolve_customer ex_stripe ex_account) = Inr \<lparr>cus_id = ''cus_A''\<rparr>"
    by (simp add: r)
  have h: "is_see_other (result (checkout ex_config ex_stripe ex_account ''price_2'' (ex_db ex_pnid)))"
    by (subst checkout_user_calls(2) [OF r' u l]) (simp add: ex_stripe_def)
  have b: "http_base_url ex_config = ''https://example.test''" "account_pid ex_account = 7"
    by (simp_all add: ex_config_def ex_account_def)
  from checkout_session_shape [OF h] r h
  show ?thesis by (auto simp add: b)
qed

text \<open>
  Claim C10. Whether the search finds a customer or a new one is created, the account's
  \<open>latest_webhook_timestamp\<close> is 0 after the checkout, and the update that sets it comes
  before the creation of the session in the order of calls (the resolution itself creates no
  session). Hence the watermark can move backwards: for a stored watermark \<open>w\<close> and an event
  timestamp \<open>t\<close> with \<open>0 < t \<le> w\<close>, the event is stale before the checkout, and after it
  the stored watermark is smaller than \<open>w\<close> and the event is no longer stale.
\<close>

theorem checkout_resets_watermark:
  "(\<forall>first rest. customers_search stripe (search_query (account_pid acc)) = Inr (first # rest) \<longrightarrow>
      fst (resolve_customer stripe acc) = Inr first)
   \<and> (\<forall>c. customers_search stripe (search_query (account_pid acc)) = Inr []
          \<and> customers_create stripe (account_email_address acc) (account_pid acc) = Inr c \<longrightarrow>
        fst (resolve_customer stripe acc) = Inr c)
   \<and> (\<forall>c. fst (resolve_customer stripe acc) = Inr c \<longrightarrow>
        (\<exists>d'. docs (store (checkout cfg stripe acc priceId db)) (account_pid acc) = Some d'
           \<and> latest_webhook_timestamp d' = Val 0)
        \<and> (\<exists>rest. calls (checkout cfg stripe acc priceId db) =
              snd (resolve_customer stripe acc)
              @ [PNID_updateOne (account_pid acc)
                   [Set_customer_id (Val (cus_id c)), Set_latest_webhook_timestamp (Val 0)] True,
                 PNID_findOne (account_pid acc)]
              @ rest
            \<and> (rest = [] \<or> (\<exists>ps. rest = [Checkout_sessions_create ps])))
        \<and> (\<forall>ps. Checkout_sessions_create ps \<notin> set (snd (resolve_customer stripe acc)))
        \<and> (\<forall>d w t. docs db (account_pid acc) = Some d \<and> latest_webhook_timestamp d = Val w
                    \<and> 0 < t \<and> t \<le> w \<longrightarrow>
              watermark_stale t w
              \<and> (\<exists>d' w'. docs (store (checkout cfg stripe acc priceId db)) (account_pid acc) = Some d'
                    \<and> latest_webhook_timestamp d' = Val w' \<and> w' < w
                    \<and> \<not> watermark_stale t w')))"
proof -
  have found: "\<forall>first rest.
      customers_search stripe (search_query (account_pid acc)) = Inr (first # rest) \<longrightarrow>
      fst (resolve_customer stripe acc) = Inr first"
    by (simp add: resolve_customer_found)
  have created: "\<forall>c. customers_search stripe (search_query (account_pid acc)) = Inr []
          \<and> customers_create stripe (account_email_address acc) (account_pid acc) = Inr c \<longrightarrow>
        fst (resolve_customer stripe acc) = Inr c"
    by (simp add: resolve_customer_created)
  have reset: "(\<exists>d'. docs (store (checkout cfg stripe acc priceId db)) (account_pid acc) = Some d'
           \<and> latest_webhook_timestamp d' = Val 0)
        \<and> (\<exists>rest. calls (checkout cfg stripe acc priceId db) =
              snd (resolve_customer stripe acc)
              @ [PNID_updateOne (account_pid acc)
                   [Set_customer_id (Val (cus_id c)), Set_latest_webhook_timestamp (Val 0)] True,
                 PNID_findOne (account_pid acc)]
              @ rest
            \<and> (rest = [] \<or> (\<exists>ps. rest = [Checkout_sessions_create ps])))
        \<and> (\<forall>ps. Checkout_sessions_create ps \<notin> set (snd (resolve_customer stripe acc)))
        \<and> (\<forall>d w t. docs db (account_pid acc) = Some d \<and> latest_webhook_timestamp d = Val w
                    \<and> 0 < t \<and> t \<le> w \<longrightarrow>
              watermark_stale t w
              \<and> (\<exists>d' w'. docs (store (checkout cfg stripe acc priceId db)) (account_pid acc) = Some d'
                    \<and> latest_webhook_timestamp d' = Val w' \<and> w' < w
                    \<and> \<not> watermark_stale t w'))"
    if r: "fst (resolve_customer stripe acc) = Inr c" for c
  proof (intro conjI)
    from checkout_watermark_reset [OF r, of cfg priceId db]
    obtain d' where d': "docs (store (checkout cfg stripe acc priceId db)) (account_pid acc) = Some d'"
        "latest_webhook_timestamp d' = Val 0"
      by blast
    then show "\<exists>d'. docs (store (checkout cfg stripe acc priceId db)) (account_pid acc) = Some d'
           \<and> latest_webhook_timestamp d' = Val 0"
      by blast
    show "\<exists>rest. calls (checkout cfg stripe acc priceId db) =
              snd (resolve_customer stripe acc)
              @ [PNID_updateOne (account_pid acc)
                   [Set_customer_id (Val (cus_id c)), Set_latest_webhook_timestamp (Val 0)] True,
                 PNID_findOne (account_pid acc)]
              @ rest
            \<and> (rest = [] \<or> (\<exists>ps. rest = [Checkout_sessions_create ps]))"
      using checkout_calls_prefix [OF r, of cfg priceId db] by (auto simp add: checkout_set_def)
    show "\<forall>ps. Checkout_sessions_create ps \<notin> set (snd (resolve_customer stripe acc))"
      by (simp add: resolve_customer_no_session)
    show "\<forall>d w t. docs db (account_pid acc) = Some d \<and> latest_webhook_timestamp d = Val w
                    \<and> 0 < t \<and> t \<le> w \<longrightarrow>
              watermark_stale t w
              \<and> (\<exists>d' w'. docs (store (checkout cfg stripe acc priceId db)) (account_pid acc) = Some d'
                    \<and> latest_webhook_timestamp d' = Val w' \<and> w' < w
                    \<and> \<not> watermark_stale t w')"
      using d' by (auto simp add: watermark_stale_def)
  qed
  from found created reset show ?thesis by blast
qed

theorem checkout_resets_watermark_witness:
  "fst (resolve_customer ex_stripe ex_account) = Inr \<lparr>cus_id = ''cus_A''\<rparr>
   \<and> fst (resolve_customer ex_stripe_empty ex_account) = Inr \<lparr>cus_id = ''cus_new''\<rparr>
   \<and> docs (ex_db ex_pnid) (account_pid ex_account) = Some ex_pnid
   \<and> latest_webhook_timestamp ex_pnid = Val 100
   \<and> watermark_stale 50 100
   \<and> (\<exists>d'. docs (store (checkout ex_config ex_stripe ex_account ''price_2'' (ex_db ex_pnid)))
               (account_pid ex_account) = Some d'
         \<and> latest_webhook_timestamp d' = Val 0)
   \<and> (\<exists>d'. docs (store (checkout ex_config ex_stripe_empty ex_account ''price_2'' (ex_db ex_pnid)))
               (account_pid ex_account) = Some d'
         \<and> latest_webhook_timestamp d' = Val 0)
   \<and> (\<exists>d' w'. docs (store (checkout ex_config ex_stripe ex_account ''price_2'' (ex_db ex_pnid)))
               (account_pid ex_account) = Some d'
         \<and> latest_webhook_timestamp d' = Val w' \<and> w' < 100 \<and> \<not> watermark_stale 50 w')"
proof -
  have r1: "fst (resolve_customer ex_stripe ex_account) = Inr \<lparr>cus_id = ''cus_A''\<rparr>"
    by (simp add: resolve_customer_def ex_stripe_def ex_account_def Let_def)
  have r2: "fst (resolve_customer ex_stripe_empty ex_account) = Inr \<lparr>cus_id = ''cus_new''\<rparr>"
    by (simp add: resolve_customer_def ex_stripe_empty_def ex_stripe_def ex_account_def Let_def)
  have d: "docs (ex_db ex_pnid) (account_pid ex_account) = Some ex_pnid"
    by (simp add: ex_db_def ex_pnid_def ex_account_def)
  have w: "latest_webhook_timestamp ex_pnid = Val 100"
    by (simp add: ex_pnid_def)
  note found = checkout_resets_watermark
         [where stripe = ex_stripe and acc = ex_account and cfg = ex_config
            and priceId = "''price_2''" and db = "ex_db ex_pnid"]
  note created = checkout_resets_watermark
         [where stripe = ex_stripe_empty and acc = ex_account and cfg = ex_config
            and priceId = "''price_2''" and db = "ex_db ex_pnid"]
  from found r1
  have f1: "\<exists>d'. docs (store (checkout ex_config ex_stripe ex_account ''price_2'' (ex_db ex_pnid)))
               (account_pid ex_account) = Some d'
         \<and> latest_webhook_timestamp d' = Val 0"
    by blast
  from created r2
  have f2: "\<exists>d'. docs (store (checkout ex_config ex_stripe_empty ex_account ''price_2'' (ex_db ex_pnid)))
               (account_pid ex_account) = Some d'
         \<and> latest_webhook_timestamp d' = Val 0"
    by blast
  have t: "(0::int) < 50 \<and> (50::int) \<le> 100" by simp
  from found r1 d w t
  have f3: "watermark_stale 50 100
     \<and> (\<exists>d' w'. docs (store (checkout ex_config ex_stripe ex_account ''price_2'' (ex_db ex_pnid)))
               (account_pid ex_account) = Some d'
         \<and> latest_webhook_timestamp d' = Val w' \<and> w' < 100 \<and> \<not> watermark_stale 50 w')"
    by blast
  from r1 r2 d w f1 f2 f3 show ?thesis by blast
qed

section \<open>The unsubscribe handler\<close>




text \<open>
  Claim C4. For every unsubscribe request on an account with an active subscription (a
  truthy \<open>subscription_id\<close>), if the provider cancellation fails then the collection is
  left as it was, no update is issued, and the response (an \<open>error_message\<close> cookie)
  differs from every response the handler gives when there is no subscription to cancel.
\<close>

theorem unsubscribe_provider_failure:
  fixes stripe :: "'e stripe_api"
  assumes "truthy (subscription_id p)"
      and "subscription_id p = Val sid"
      and "subscriptions_del stripe sid = Inl err"
  shows "store (unsubscribe stripe p db) = db
         \<and> calls (unsubscribe stripe p db) = [Subscriptions_del sid]
         \<and> result (unsubscribe stripe p db) =
             Inr (redirect [(''error_message'',
                             ''Error canceling subscription! Contact support if issue persists'',
                             cookie_domain)] ''/account'')
         \<and> (\<forall>(stripe' :: 'e stripe_api) p' db'. \<not> truthy (subscription_id p') \<longrightarrow>
               result (unsubscribe stripe' p' db') \<noteq> result (unsubscribe stripe p db))"
proof -
  from assms(1,2) have ne: "sid \<noteq> []" by simp
  note out = unsubscribe_failed [OF assms(2) ne assms(3), of db]
  have "result (unsubscribe stripe' p' db') \<noteq> result (unsubscribe stripe p db)"
    if "\<not> truthy (subscription_id p')" for stripe' :: "'e stripe_api" and p' db'
    by (simp add: out unsubscribe_skipped [OF that] redirect_def)
  then show ?thesis by (simp add: out)
qed

theorem unsubscribe_provider_failure_witness:
  "truthy (subscription_id ex_pnid)
   \<and> subscriptions_del ex_stripe_down ''sub_1'' = Inl (Error ''timeout'')
   \<and> store (unsubscribe ex_stripe_down ex_pnid (ex_db ex_pnid)) = ex_db ex_pnid
   \<and> result (unsubscribe ex_stripe_down ex_unsubscribed (ex_db ex_unsubscribed)) \<noteq>
       result (unsubscribe ex_stripe_down ex_pnid (ex_db ex_pnid))"
proof -
  have h1: "truthy (subscription_id ex_pnid)" by (simp add: ex_pnid_def)
  have h2: "subscription_id ex_pnid = Val ''sub_1''" by (simp add: ex_pnid_def)
  have h3: "subscriptions_del ex_stripe_down ''sub_1'' = Inl (Error ''timeout'')"
    by (simp add: ex_stripe_down_def)
  have h4: "\<not> truthy (subscription_id ex_unsubscribed)" by (simp add: ex_unsubscribed_def)
  from unsubscribe_provider_failure [OF h1 h2 h3, of "ex_db ex_pnid"] h1 h3 h4
  show ?thesis by blast
qed

text \<open>
  Claim C5. For every account whose \<open>subscription_id\<close> is null (or undefined), an
  unsubscribe request answers with the success cookie, calls neither the provider nor the
  collection, and leaves the collection as it was; repeating it gives the same outcome.
\<close>

theorem unsubscribe_without_subscription:
  assumes "subscription_id p = Null \<or> subscription_id p = Undefined"
  shows "unsubscribe stripe p db =
           \<lparr>result = Inr (redirect [(''success'', ''Unsubscribed from '' @ template_str (tier_name p),
                                    cookie_domain)] ''/account''),
            store = db, calls = [], logged = []\<rparr>
         \<and> unsubscribe stripe p (store (unsubscribe stripe p db)) = unsubscribe stripe p db"
proof -
  from assms have "\<not> truthy (subscription_id p)" by auto
  then have "unsubscribe stripe p d =
           \<lparr>result = Inr (redirect [(''success'', ''Unsubscribed from '' @ template_str (tier_name p),
                                    cookie_domain)] ''/account''),
            store = d, calls = [], logged = []\<rparr>" for d
    by (simp add: unsubscribe_def Let_def)
  then show ?thesis by simp
qed

theorem unsubscribe_without_subscription_witness:
  "subscription_id ex_unsubscribed = Null
   \<and> calls (unsubscribe ex_stripe ex_unsubscribed (ex_db ex_unsubscribed)) = []
   \<and> store (unsubscribe ex_stripe ex_unsubscribed (ex_db ex_unsubscribed)) = ex_db ex_unsubscribed
   \<and> result (unsubscribe ex_stripe ex_unsubscribed (ex_db ex_unsubscribed)) =
       Inr \<lparr>cookies = [(''success'', ''Unsubscribed from null'', ''.pretendo.network'')],
            reply = Redirect 302 ''/account''\<rparr>"
proof -
  have h: "subscription_id ex_unsubscribed = Null"
    by (simp add: ex_unsubscribed_def)
  have t: "tier_name ex_unsubscribed = Null"
    by (simp add: ex_unsubscribed_def)
  from unsubscribe_without_subscription [of ex_unsubscribed ex_stripe "ex_db ex_unsubscribed"] h t
  show ?thesis by (simp add: redirect_def cookie_domain_def)
qed

text \<open>
  Claim C9, as stated: for every account with \<open>access_level\<close> at least 2, no
  billing-driven operation lowers \<open>access_level\<close>; the unsubscribe handler resets it to 0
  only when the stored \<open>access_level\<close> is below 2.

  The handler tests the level of \<open>request.pnid\<close>, the document loaded for the request,
  not the level in the collection. With the stored account \<open>ex_staff\<close> of level 3 and a
  request document of the same pid that still has level 1, unsubscribe writes the stored
  level 0.
\<close>

theorem unsubscribe_stale_request_counterexample:
  "docs (ex_db ex_staff) 7 = Some ex_staff
   \<and> access_level ex_staff = 3
   \<and> pid ex_pnid = 7
   \<and> access_level ex_pnid = 1
   \<and> map_option access_level (docs (store (unsubscribe ex_stripe ex_pnid (ex_db ex_staff))) 7)
       = Some 0"
proof -
  have d: "docs (ex_db ex_staff) (pid ex_pnid) = Some ex_staff"
    by (simp add: ex_db_def ex_staff_def ex_pnid_def)
  have s: "subscription_id ex_pnid = Val ''sub_1''"
    by (simp add: ex_pnid_def)
  have l: "access_level ex_pnid = 1"
    by (simp add: ex_pnid_def)
  have i: "pid ex_pnid = 7"
    by (simp add: ex_pnid_def)
  have ok: "subscriptions_del ex_stripe ''sub_1'' = Inr ()"
    by (simp add: ex_stripe_def)
  have "map_option access_level
          (docs (store (unsubscribe ex_stripe ex_pnid (ex_db ex_staff))) (pid ex_pnid))
       = Some 0"
    by (simp add: unsubscribe_cancelled [OF s _ ok] docs_updateOne_found [OF d]
          apply_set_unsubscribe l)
  moreover have "access_level ex_staff = 3" by (simp add: ex_staff_def)
  ultimately show ?thesis using d l i by simp
qed

text \<open>
  Claim C9, amended. The unsubscribe handler resets \<open>access_level\<close> to 0 only when the
  \<open>access_level\<close> of \<open>request.pnid\<close> is below 2: if that level is at least 2, every
  stored level is as before; a stored level that changes is that of the request's pid, the
  request document's level is below 2, and the new level is 0. In particular a staff
  account whose request document is the stored one keeps its level. Checkout leaves the
  level of every stored document as it was. The Unsubscribed transition of the reconciler,
  as the spec gives it, keeps a level of at least 2 and changes a level only if it is
  below 2, to 0.
\<close>

theorem staff_access_level_kept:
  fixes stripe :: "'e stripe_api"
  shows "(access_level p \<ge> 2 \<longrightarrow>
            (\<forall>q. map_option access_level (docs (store (unsubscribe stripe p db)) q) =
                  map_option access_level (docs db q)))
         \<and> (\<forall>q d d'. docs db q = Some d \<and> docs (store (unsubscribe stripe p db)) q = Some d'
                  \<and> access_level d' \<noteq> access_level d \<longrightarrow>
                q = pid p \<and> access_level p < 2 \<and> access_level d' = 0)
         \<and> (docs db (pid p) = Some p \<and> access_level p \<ge> 2 \<longrightarrow>
              map_option access_level (docs (store (unsubscribe stripe p db)) (pid p)) =
              Some (access_level p))
         \<and> (\<forall>cfg acc priceId q d. docs db q = Some d \<longrightarrow>
              map_option access_level (docs (store (checkout cfg stripe acc priceId db)) q) =
              Some (access_level d))
         \<and> (\<forall>d. access_level d \<ge> 2 \<longrightarrow>
              access_level (unsubscribed_transition d) = access_level d)
         \<and> (\<forall>d. access_level (unsubscribed_transition d) \<noteq> access_level d \<longrightarrow>
              access_level d < 2 \<and> access_level (unsubscribed_transition d) = 0)"
proof -
  have a: "access_level p \<ge> 2 \<longrightarrow>
            (\<forall>q. map_option access_level (docs (store (unsubscribe stripe p db)) q) =
                  map_option access_level (docs db q))"
    by (simp add: unsubscribe_staff_request)
  have b: "\<forall>q d d'. docs db q = Some d \<and> docs (store (unsubscribe stripe p db)) q = Some d'
                  \<and> access_level d' \<noteq> access_level d \<longrightarrow>
                q = pid p \<and> access_level p < 2 \<and> access_level d' = 0"
    using unsubscribe_level_change [of db _ _ stripe p] by blast
  have c: "docs db (pid p) = Some p \<and> access_level p \<ge> 2 \<longrightarrow>
              map_option access_level (docs (store (unsubscribe stripe p db)) (pid p)) =
              Some (access_level p)"
    by (simp add: unsubscribe_staff_request)
  have d: "map_option access_level (docs (store (checkout cfg stripe acc priceId db)) q) =
              Some (access_level d)"
    if "docs db q = Some d" for cfg acc priceId q d
    using checkout_frame [OF that, of cfg stripe acc priceId] by auto
  have e: "\<forall>d. access_level d \<ge> 2 \<longrightarrow>
              access_level (unsubscribed_transition d) = access_level d"
    by (simp add: unsubscribed_transition_def Let_def)
  have f: "\<forall>d. access_level (unsubscribed_transition d) \<noteq> access_level d \<longrightarrow>
              access_level d < 2 \<and> access_level (unsubscribed_transition d) = 0"
    by (simp add: unsubscribed_transition_def Let_def)
  from a b c d e f show ?thesis by blast
qed

theorem staff_access_level_kept_witness:
  "docs (ex_db ex_staff) (pid ex_staff) = Some ex_staff
   \<and> access_level ex_staff \<ge> 2
   \<and> map_option access_level (docs (store (unsubscribe ex_stripe ex_staff (ex_db ex_staff))) 7) = Some 3
   \<and> map_option access_level
       (docs (store (checkout ex_config ex_stripe ex_account ''price_1'' (ex_db ex_staff))) 7) = Some 3
   \<and> docs (store (unsubscribe ex_stripe ex_staff (ex_db ex_staff))) 7 =
       Some (ex_staff\<lparr>subscription_id := Null, price_id := Null, tier_level := Val 0,
                      tier_name := Null\<rparr>)
   \<and> unsubscribed_transition ex_staff =
       ex_staff\<lparr>subscription_id := Null, price_id := Null, tier_level := Null, tier_name := Null\<rparr>
   \<and> access_level (unsubscribed_transition ex_staff) = 3
   \<and> docs (ex_db ex_pnid) 7 = Some ex_pnid
   \<and> access_level ex_pnid = 1
   \<and> map_option access_level (docs (store (unsubscribe ex_stripe ex_pnid (ex_db ex_pnid))) 7) = Some 0
   \<and> access_level (unsubscribed_transition ex_pnid) = 0"
proof -
  have h: "docs (ex_db ex_staff) (pid ex_staff) = Some ex_staff"
    by (simp add: ex_db_def)
  have h7: "docs (ex_db ex_staff) 7 = Some ex_staff"
    by (simp add: ex_db_def ex_staff_def ex_pnid_def)
  have a: "access_level ex_staff \<ge> 2" "access_level ex_staff = 3" "pid ex_staff = 7"
    by (simp_all add: ex_staff_def ex_pnid_def)
  have s: "subscription_id ex_staff = Val ''sub_1''"
    by (simp add: ex_staff_def ex_pnid_def)
  have ok: "subscriptions_del ex_stripe ''sub_1'' = Inr ()"
    by (simp add: ex_stripe_def)
  have st: "docs (store (unsubscribe ex_stripe ex_staff (ex_db ex_staff))) 7 =
       Some (ex_staff\<lparr>subscription_id := Null, price_id := Null, tier_level := Val 0,
                      tier_name := Null\<rparr>)"
    using docs_updateOne_found [OF h] a
    by (simp add: unsubscribe_cancelled [OF s _ ok] apply_set_unsubscribe)
  note staff = staff_access_level_kept
         [where stripe = ex_stripe and p = ex_staff and db = "ex_db ex_staff"]
  from staff a have u: "map_option access_level
        (docs (store (unsubscribe ex_stripe ex_staff (ex_db ex_staff))) 7)
          = map_option access_level (docs (ex_db ex_staff) 7)"
    by blast
  from staff h7 have c: "map_option access_level
            (docs (store (checkout ex_config ex_stripe ex_account ''price_1'' (ex_db ex_staff))) 7)
          = Some (access_level ex_staff)"
    by blast
  from staff a have t: "access_level (unsubscribed_transition ex_staff) = access_level ex_staff"
    by blast
  have tr: "unsubscribed_transition ex_staff =
       ex_staff\<lparr>subscription_id := Null, price_id := Null, tier_level := Null, tier_name := Null\<rparr>"
    using a by (simp add: unsubscribed_transition_def Let_def)
  have p: "docs (ex_db ex_pnid) 7 = Some ex_pnid" "access_level ex_pnid = 1"
    "subscription_id ex_pnid = Val ''sub_1''" "pid ex_pnid = 7"
    by (simp_all add: ex_db_def ex_pnid_def)
  have p': "docs (ex_db ex_pnid) (pid ex_pnid) = Some ex_pnid"
    by (simp add: ex_db_def)
  have lo: "map_option access_level (docs (store (unsubscribe ex_stripe ex_pnid (ex_db ex_pnid))) 7)
             = Some 0"
    using docs_updateOne_found [OF p'] p
    by (simp add: unsubscribe_cancelled [OF p(3) _ ok] apply_set_unsubscribe)
  have lt: "access_level (unsubscribed_transition ex_pnid) = 0"
    using p by (simp add: unsubscribed_transition_def Let_def)
  from h a u c h7 st t tr p lo lt show ?thesis by simp
qed

section \<open>The webhook endpoint\<close>

text \<open>
  Claim C2. The first call of the webhook endpoint is the verification of the signature
  against the configured secret. If it throws, the endpoint answers status 400 with the
  error text, the event handler is not called and the collection is unchanged. If it
  returns an event, that event is handed to the event handler, and when the handler returns
  without throwing the endpoint answers the acknowledgment \<open>{received: true}\<close>, also when
  the handler changed nothing.
\<close>

theorem webhook_authenticates_first:
  "case webhooks_constructEvent stripe body stripeSignature (stripe_webhook_secret cfg) of
     Inl err \<Rightarrow>
       webhook cfg stripe handleStripeEvent body stripeSignature db =
         \<lparr>result = Inr \<lparr>cookies = [], reply = Send 400 (''Webhook Error: '' @ message err)\<rparr>,
          store = db,
          calls = [Webhooks_constructEvent body stripeSignature (stripe_webhook_secret cfg)],
          logged = []\<rparr>
   | Inr event \<Rightarrow>
       calls (webhook cfg stripe handleStripeEvent body stripeSignature db) =
         [Webhooks_constructEvent body stripeSignature (stripe_webhook_secret cfg),
          HandleStripeEvent event]
       \<and> store (webhook cfg stripe handleStripeEvent body stripeSignature db) =
           snd (handleStripeEvent event db)
       \<and> (fst (handleStripeEvent event db) = None \<longrightarrow>
             result (webhook cfg stripe handleStripeEvent body stripeSignature db) =
               Inr \<lparr>cookies = [], reply = Json 200 [(''received'', True)]\<rparr>)"
  by (cases "webhooks_constructEvent stripe body stripeSignature (stripe_webhook_secret cfg)")
     (auto simp add: webhook_def Let_def split: prod.splits option.splits)

theorem webhook_authenticates_first_witness:
  "webhooks_constructEvent ex_stripe ''{}'' (Some ''forged'') (stripe_webhook_secret ex_config)
     = Inl (Error ''bad signature'')
   \<and> webhook ex_config ex_stripe ex_handler ''{}'' (Some ''forged'') (ex_db ex_pnid) =
       \<lparr>result = Inr \<lparr>cookies = [], reply = Send 400 ''Webhook Error: bad signature''\<rparr>,
        store = ex_db ex_pnid,
        calls = [Webhooks_constructEvent ''{}'' (Some ''forged'') ''whsec''],
        logged = []\<rparr>
   \<and> webhooks_constructEvent ex_stripe ''{}'' (Some ''good'') (stripe_webhook_secret ex_config)
     = Inr ''{}''
   \<and> fst (ex_handler ''{}'' (ex_db ex_pnid)) = None
   \<and> calls (webhook ex_config ex_stripe ex_handler ''{}'' (Some ''good'') (ex_db ex_pnid)) =
       [Webhooks_constructEvent ''{}'' (Some ''good'') ''whsec'', HandleStripeEvent ''{}'']
   \<and> store (webhook ex_config ex_stripe ex_handler ''{}'' (Some ''good'') (ex_db ex_pnid)) =
       ex_db ex_pnid
   \<and> result (webhook ex_config ex_stripe ex_handler ''{}'' (Some ''good'') (ex_db ex_pnid)) =
       Inr \<lparr>cookies = [], reply = Json 200 [(''received'', True)]\<rparr>"
proof -
  have bad: "webhooks_constructEvent ex_stripe ''{}'' (Some ''forged'') (stripe_webhook_secret ex_config)
     = Inl (Error ''bad signature'')"
    by (simp add: ex_stripe_def)
  have good: "webhooks_constructEvent ex_stripe ''{}'' (Some ''good'') (stripe_webhook_secret ex_config)
     = Inr ''{}''"
    by (simp add: ex_stripe_def)
  have h: "ex_handler ''{}'' (ex_db ex_pnid) = (None, ex_db ex_pnid)"
    by (simp add: ex_handler_def)
  have s: "stripe_webhook_secret ex_config = ''whsec''"
    by (simp add: ex_config_def)
  from webhook_authenticates_first
         [where stripe = ex_stripe and cfg = ex_config and body = "''{}''"
            and stripeSignature = "Some ''forged''" and handleStripeEvent = ex_handler
            and db = "ex_db ex_pnid"]
       webhook_authenticates_first
         [where stripe = ex_stripe and cfg = ex_config and body = "''{}''"
            and stripeSignature = "Some ''good''" and handleStripeEvent = ex_handler
            and db = "ex_db ex_pnid"]
       bad good h s
  show ?thesis by simp
qed

end
